theory Spec2Isabelle
  imports Complex_Main "HOL-Library.Log_Nat"
begin

section \<open>Numbers\<close>

text \<open>
  A JavaScript number is an IEEE 754 double: NaN, one of the two infinities, or a finite
  value. \<open>Fin x\<close> is the finite double of value \<open>x\<close>. The two zeros are one value: the
  program never divides and never inspects the sign of a zero, so it cannot tell them
  apart.
\<close>

datatype num = NaN | PInf | NInf | Fin real

text \<open>
  Rounding of a real to the nearest double, ties to the even significand. The position
  of the leading bit of a nonzero \<open>x\<close> is \<open>exponent x\<close>, the whole number \<open>e\<close> with
  \<open>2 powi e \<le> \<bar>x\<bar> < 2 powi (e + 1)\<close>; it is read off the bit length of the integer
  part of \<open>\<bar>x\<bar>\<close>, or of its reciprocal when \<open>\<bar>x\<bar> < 1\<close>. The spacing of the doubles
  around \<open>x\<close> is \<open>quantum x\<close>: 52 binary places below the leading bit, and never finer
  than \<open>2 powi - 1074\<close> (the subnormal range). A result of magnitude \<open>2 ^ 1024\<close> or more
  overflows to an infinity.
\<close>

definition exponent :: "real \<Rightarrow> int" where
  "exponent x =
     (if 1 \<le> \<bar>x\<bar> then bitlen \<lfloor>\<bar>x\<bar>\<rfloor> - 1 else - bitlen (\<lceil>1 / \<bar>x\<bar>\<rceil> - 1))"

definition round_even :: "real \<Rightarrow> int" where
  "round_even y =
     (let f = \<lfloor>y\<rfloor>
      in if y - of_int f < 1 / 2 then f
         else if 1 / 2 < y - of_int f then f + 1
         else if even f then f else f + 1)"

definition quantum :: "real \<Rightarrow> real" where
  "quantum x = 2 powi (max (exponent x) (- 1022) - 52)"

definition rd :: "real \<Rightarrow> num" where
  "rd x =
     (if x = 0 then Fin 0
      else (let y = of_int (round_even (x / quantum x)) * quantum x
            in if 2 ^ 1024 \<le> y then PInf
               else if y \<le> - (2 ^ 1024) then NInf
               else Fin y))"

text \<open>The reals that are doubles: those that rounding leaves as they are.\<close>

definition is_double :: "real \<Rightarrow> bool" where
  "is_double x = (rd x = Fin x)"

fun is_double_num :: "num \<Rightarrow> bool" where
  "is_double_num (Fin x) = is_double x"
| "is_double_num v = True"

fun is_finite :: "num \<Rightarrow> bool" where
  "is_finite (Fin x) = True"
| "is_finite v = False"

text \<open>
  The operators of the program on numbers: \<^verbatim>\<open>+\<close>, unary and binary \<^verbatim>\<open>-\<close>, \<^verbatim>\<open>*\<close>, \<^verbatim>\<open><\<close>,
  \<^verbatim>\<open>Math.floor\<close> and \<^verbatim>\<open>Math.abs\<close>. A finite result is rounded; NaN makes every sum and
  product NaN and every comparison false; infinity minus infinity and infinity times
  zero are NaN. The floor of a double is a double, so \<open>js_floor\<close> does not round.
\<close>

fun js_neg :: "num \<Rightarrow> num" where
  "js_neg NaN = NaN"
| "js_neg PInf = NInf"
| "js_neg NInf = PInf"
| "js_neg (Fin a) = Fin (- a)"

fun js_add :: "num \<Rightarrow> num \<Rightarrow> num" where
  "js_add NaN b = NaN"
| "js_add a NaN = NaN"
| "js_add (Fin a) (Fin b) = rd (a + b)"
| "js_add PInf NInf = NaN"
| "js_add NInf PInf = NaN"
| "js_add PInf b = PInf"
| "js_add NInf b = NInf"
| "js_add (Fin a) b = b"

definition js_sub :: "num \<Rightarrow> num \<Rightarrow> num" where
  "js_sub a b = js_add a (js_neg b)"

fun js_mul :: "num \<Rightarrow> num \<Rightarrow> num" where
  "js_mul NaN b = NaN"
| "js_mul a NaN = NaN"
| "js_mul (Fin a) (Fin b) = rd (a * b)"
| "js_mul (Fin a) b = (if a = 0 then NaN else if (0 < a) = (b = PInf) then PInf else NInf)"
| "js_mul a (Fin b) = (if b = 0 then NaN else if (0 < b) = (a = PInf) then PInf else NInf)"
| "js_mul a b = (if a = b then PInf else NInf)"

fun js_less :: "num \<Rightarrow> num \<Rightarrow> bool" where
  "js_less NaN b = False"
| "js_less a NaN = False"
| "js_less (Fin a) (Fin b) = (a < b)"
| "js_less PInf b = False"
| "js_less a NInf = False"
| "js_less a b = True"

fun js_floor :: "num \<Rightarrow> num" where
  "js_floor (Fin a) = Fin (of_int \<lfloor>a\<rfloor>)"
| "js_floor v = v"

fun js_abs :: "num \<Rightarrow> num" where
  "js_abs NaN = NaN"
| "js_abs (Fin a) = Fin \<bar>a\<bar>"
| "js_abs v = PInf"

section \<open>Values and errors\<close>

text \<open>
  The engine is JavaScript, so the arguments of its methods are dynamically typed.
  \<open>jsval\<close> holds the primitive values the methods test with \<^verbatim>\<open>typeof\<close>, \<^verbatim>\<open>||\<close> and
  \<^verbatim>\<open>===\<close>.
\<close>

datatype jsval = Undefined | Null | Bool bool | Num num | Str string

text \<open>An exception is a value; the message is the static text of the source.\<close>

datatype error = Error string | TypeError string | ReferenceError string

text \<open>\<^verbatim>\<open>typeof v === 'number'\<close>: true of every number, NaN and the infinities included.\<close>

fun is_number :: "jsval \<Rightarrow> bool" where
  "is_number (Num r) = True"
| "is_number v = False"

text \<open>\<^verbatim>\<open>a === b\<close>: NaN is not equal to anything, itself included.\<close>

fun strict_eq :: "jsval \<Rightarrow> jsval \<Rightarrow> bool" where
  "strict_eq (Num NaN) b = False"
| "strict_eq a (Num NaN) = False"
| "strict_eq a b = (a = b)"

text \<open>
  The truth value \<^verbatim>\<open>||\<close> and \<^verbatim>\<open>?:\<close> test: undefined, null, false, 0, NaN and the empty
  string are falsy.
\<close>

fun truthy :: "jsval \<Rightarrow> bool" where
  "truthy Undefined = False"
| "truthy Null = False"
| "truthy (Bool b) = b"
| "truthy (Num r) = (r \<noteq> Fin 0 \<and> r \<noteq> NaN)"
| "truthy (Str s) = (s \<noteq> [])"

text \<open>\<^verbatim>\<open>a || b\<close>\<close>

definition js_or :: "jsval \<Rightarrow> jsval \<Rightarrow> jsval" where
  "js_or a b = (if truthy a then a else b)"

section \<open>GameObject\<close>

text \<open>
  \<^verbatim>\<open>Engine.createObject\<close> is the same text in \<^verbatim>\<open>src/index.js\<close> (lines 24-100) and in
  \<^verbatim>\<open>src/unnamed/part_000\<close> (lines 149-230). Position, velocity and acceleration are
  written only by the constructor and by the setters, which store whatever passes
  \<^verbatim>\<open>typeof\<close>, so they are numbers of any kind; \<^verbatim>\<open>setSize\<close> validates nothing, so width
  and height are any value. The \<^verbatim>\<open>color\<close> property is the one the particle's init routine
  adds; it is undefined on a new object. The bound render routine (\<^verbatim>\<open>methods.render\<close>)
  draws and changes no field; only its presence, which the constructor checks, is
  modelled.
\<close>

record xy =
  xc :: num
  yc :: num

record wh =
  width :: jsval
  height :: jsval

record gameobject =
  position :: xy
  velocity :: xy
  acceleration :: num
  size_wh :: wh
  color :: jsval

text \<open>The argument object of \<^verbatim>\<open>setPosition\<close> and \<^verbatim>\<open>setVelocity\<close>; an omitted
  coordinate is \<open>Undefined\<close>.\<close>

record xyarg =
  xa :: jsval
  ya :: jsval

text \<open>The fields the constructor sets before it runs \<^verbatim>\<open>settings.init\<close>.\<close>

definition new_object :: gameobject where
  "new_object =
     \<lparr> position = \<lparr> xc = Fin 0, yc = Fin 0 \<rparr>, velocity = \<lparr> xc = Fin 0, yc = Fin 0 \<rparr>,
       acceleration = Fin 0, size_wh = \<lparr> width = Num (Fin 0), height = Num (Fin 0) \<rparr>,
       color = Undefined \<rparr>"

text \<open>
  \<^verbatim>\<open>setPosition ({ x = this.position.x, y = this.position.y })\<close>: a default parameter
  replaces an undefined coordinate, then both must be numbers.
\<close>

definition setPosition :: "xyarg \<Rightarrow> gameobject \<Rightarrow> error + gameobject" where
  "setPosition a g =
     (let x = (if xa a = Undefined then Num (xc (position g)) else xa a);
          y = (if ya a = Undefined then Num (yc (position g)) else ya a)
      in case (x, y) of
           (Num x', Num y') \<Rightarrow> Inr (g\<lparr> position := \<lparr> xc = x', yc = y' \<rparr> \<rparr>)
         | _ \<Rightarrow> Inl (Error ''setPosition called with invalid x and y coordinates.''))"

definition setVelocity :: "xyarg \<Rightarrow> gameobject \<Rightarrow> error + gameobject" where
  "setVelocity a g =
     (let x = (if xa a = Undefined then Num (xc (velocity g)) else xa a);
          y = (if ya a = Undefined then Num (yc (velocity g)) else ya a)
      in case (x, y) of
           (Num x', Num y') \<Rightarrow> Inr (g\<lparr> velocity := \<lparr> xc = x', yc = y' \<rparr> \<rparr>)
         | _ \<Rightarrow> Inl (Error ''setVelocity called with invalid x and y coordinates.''))"

text \<open>\<^verbatim>\<open>setAcceleration\<close>: the range test is \<^verbatim>\<open>a < 0 || a > 1\<close>.\<close>

definition setAcceleration :: "jsval \<Rightarrow> gameobject \<Rightarrow> error + gameobject" where
  "setAcceleration a g =
     (case a of
        Num r \<Rightarrow>
          if js_less r (Fin 0) \<or> js_less (Fin 1) r
          then Inl (Error ''Acceleration must be between 0 and 1.'')
          else Inr (g\<lparr> acceleration := r \<rparr>)
      | _ \<Rightarrow> Inl (Error ''setAcceleration must be called with a number.''))"

text \<open>\<^verbatim>\<open>setSize (width, height = width)\<close>\<close>

definition setSize :: "jsval \<Rightarrow> jsval \<Rightarrow> gameobject \<Rightarrow> gameobject" where
  "setSize w h g =
     g\<lparr> size_wh := \<lparr> width = w, height = (if h = Undefined then w else h) \<rparr> \<rparr>"

text \<open>\<^verbatim>\<open>move\<close>: the boundary reflection is a comment in the source, so it is absent here.\<close>

definition move :: "gameobject \<Rightarrow> gameobject" where
  "move g =
     (let Px = xc (position g); Py = yc (position g);
          Vx = xc (velocity g); Vy = yc (velocity g);
          A = acceleration g;
          nextPos = \<lparr> xc = js_add Px (js_mul Vx A), yc = js_add Py (js_mul Vy A) \<rparr>
      in g\<lparr> position := nextPos \<rparr>)"

text \<open>
  The constructor: \<open>init\<close> is \<^verbatim>\<open>settings.init\<close> when it is a function (it runs on the
  new object and may throw), \<open>has_render\<close> says whether \<^verbatim>\<open>settings.render\<close> is a
  function.
\<close>

definition createObject ::
  "(gameobject \<Rightarrow> error + gameobject) option \<Rightarrow> bool \<Rightarrow> error + gameobject" where
  "createObject init has_render =
     (case (case init of None \<Rightarrow> Inr new_object | Some f \<Rightarrow> f new_object) of
        Inl e \<Rightarrow> Inl e
      | Inr g \<Rightarrow>
          if has_render then Inr g
          else Inl (Error ''GameObject requires a render method.''))"

section \<open>Engine\<close>

text \<open>
  The repository holds the engine twice: \<^verbatim>\<open>src/index.js\<close>, whose state values are the
  strings \<^verbatim>\<open>'INIT'\<close> ... \<^verbatim>\<open>'END'\<close>, and \<^verbatim>\<open>src/unnamed/part_000\<close>, whose state values
  are the numbers 0 ... 4. The definitions of the first carry the suffix \<open>_index\<close>, those
  of the second the suffix \<open>_part000\<close>.

  The table \<^verbatim>\<open>states\<close> is an object literal; its entry \<^verbatim>\<open>last\<close> is the only one that is
  ever assigned, so the table is a function of that entry, in the key order of the
  literal.
\<close>

definition states_index :: "jsval \<Rightarrow> (string \<times> jsval) list" where
  "states_index l =
     [(''init'', Str ''INIT''), (''start'', Str ''START''), (''play'', Str ''PLAY''),
      (''pause'', Str ''PAUSE''), (''end'', Str ''END''), (''last'', l)]"

definition states_part000 :: "jsval \<Rightarrow> (string \<times> jsval) list" where
  "states_part000 l =
     [(''init'', Num (Fin 0)), (''start'', Num (Fin 1)), (''play'', Num (Fin 2)),
      (''pause'', Num (Fin 3)), (''end'', Num (Fin 4)), (''last'', l)]"

text \<open>
  \<^verbatim>\<open>states.hasOwnProperty(state)\<close> and \<^verbatim>\<open>states[state]\<close> turn the argument into a property
  key. A string is its own key. The keys of the other primitive values are a numeral,
  \<^verbatim>\<open>NaN\<close>, \<^verbatim>\<open>Infinity\<close>, \<^verbatim>\<open>-Infinity\<close>, \<^verbatim>\<open>undefined\<close>, \<^verbatim>\<open>null\<close>, \<^verbatim>\<open>true\<close> and \<^verbatim>\<open>false\<close>,
  none of them a key of the table, so for them the test is false and the read is
  undefined.
\<close>

definition hasOwnProperty :: "(string \<times> jsval) list \<Rightarrow> jsval \<Rightarrow> bool" where
  "hasOwnProperty tbl k = (case k of Str s \<Rightarrow> map_of tbl s \<noteq> None | _ \<Rightarrow> False)"

definition get_prop :: "(string \<times> jsval) list \<Rightarrow> jsval \<Rightarrow> jsval" where
  "get_prop tbl k =
     (case k of
        Str s \<Rightarrow> (case map_of tbl s of Some v \<Rightarrow> v | None \<Rightarrow> Undefined)
      | _ \<Rightarrow> Undefined)"

text \<open>What \<^verbatim>\<open>start\<close> and the two loops ask of the browser, in the order of the calls.\<close>

datatype effect =
    SetInterval nat
  | RequestAnimationFrame
  | ClearRect
  | CallRender
  | CallLoop

text \<open>
  An engine together with the shared entry \<^verbatim>\<open>states.last\<close>: \<open>state\<close> is \<^verbatim>\<open>this.state\<close>,
  \<open>render_installed\<close> says whether \<^verbatim>\<open>this.render\<close> has been assigned, \<open>effects\<close> is the
  log of the browser calls made so far.
\<close>

record engine =
  state :: jsval
  states_last :: jsval
  render_installed :: bool
  effects :: "effect list"

text \<open>The engine as its constructor leaves it, on a table whose \<^verbatim>\<open>last\<close> is still null.\<close>

definition Engine_index :: engine where
  "Engine_index =
     \<lparr> state = get_prop (states_index Null) (Str ''init''), states_last = Null,
       render_installed = False, effects = [] \<rparr>"

definition Engine_part000 :: engine where
  "Engine_part000 =
     \<lparr> state = get_prop (states_part000 Null) (Str ''init''), states_last = Null,
       render_installed = False, effects = [] \<rparr>"

text \<open>
  \<^verbatim>\<open>setState\<close> of \<^verbatim>\<open>src/index.js\<close>. It throws before it writes anything, so \<open>Inl\<close> leaves
  the engine as it was. The message of the source ends with the argument.
\<close>

definition setState_index :: "jsval \<Rightarrow> engine \<Rightarrow> error + engine" where
  "setState_index a e =
     (if hasOwnProperty (states_index (states_last e)) a then
        (let e1 = e\<lparr> states_last := state e \<rparr>
         in Inr (e1\<lparr> state := get_prop (states_index (states_last e1)) a \<rparr>))
      else Inl (Error ''No state found for ''))"

text \<open>
  \<^verbatim>\<open>setState\<close> of \<^verbatim>\<open>src/unnamed/part_000\<close>. \<open>vals\<close> is read before \<^verbatim>\<open>states.last\<close> is
  overwritten, the table is read by name after it. \<^verbatim>\<open>~vals.indexOf(state)\<close> is nonzero
  exactly when \<open>state\<close> is strictly equal to an element of \<open>vals\<close>. Before it throws the
  method writes the old value back to \<^verbatim>\<open>states.last\<close>, so \<open>Inl\<close> leaves the engine and
  the table as they were.
\<close>

definition setState_part000 :: "jsval \<Rightarrow> engine \<Rightarrow> error + engine" where
  "setState_part000 a e =
     (let vals = map snd (states_part000 (states_last e));
          e1 = e\<lparr> states_last := state e \<rparr>
      in if list_ex (\<lambda>v. strict_eq v a) vals then Inr (e1\<lparr> state := a \<rparr>)
         else if hasOwnProperty (states_part000 (states_last e1)) a then
           Inr (e1\<lparr> state := get_prop (states_part000 (states_last e1)) a \<rparr>)
         else Inl (Error ''Cannot find state ''))"

text \<open>
  The two callbacks \<^verbatim>\<open>start\<close> creates, as steps on the engine: each returns at once
  while the state is \<^verbatim>\<open>states.pause\<close>.
\<close>

definition RENDER_LOOP :: "jsval \<Rightarrow> engine \<Rightarrow> engine" where
  "RENDER_LOOP pause e =
     (if strict_eq (state e) pause then e
      else e\<lparr> effects := effects e @ [ClearRect, CallRender, RequestAnimationFrame] \<rparr>)"

definition SIM_LOOP :: "jsval \<Rightarrow> engine \<Rightarrow> engine" where
  "SIM_LOOP pause e =
     (if strict_eq (state e) pause then e else e\<lparr> effects := effects e @ [CallLoop] \<rparr>)"

text \<open>
  \<^verbatim>\<open>start\<close> of \<^verbatim>\<open>src/index.js\<close>: it assigns \<^verbatim>\<open>this.render\<close>, registers the simulation
  step every 50 ms and requests the first frame. It does not assign \<^verbatim>\<open>this.state\<close>.
\<close>

definition start_index :: "engine \<Rightarrow> engine" where
  "start_index e =
     (if strict_eq (state e) (get_prop (states_index (states_last e)) (Str ''init'')) then
        e\<lparr> render_installed := True,
           effects := effects e @ [SetInterval 50, RequestAnimationFrame] \<rparr>
      else e)"

text \<open>\<^verbatim>\<open>start\<close> of \<^verbatim>\<open>src/unnamed/part_000\<close> ends with \<^verbatim>\<open>this.setState(states.start)\<close>.\<close>

definition start_part000 :: "engine \<Rightarrow> error + engine" where
  "start_part000 e =
     (if strict_eq (state e) (get_prop (states_part000 (states_last e)) (Str ''init'')) then
        (let e1 = e\<lparr> render_installed := True,
                      effects := effects e @ [SetInterval 50, RequestAnimationFrame] \<rparr>
         in setState_part000 (get_prop (states_part000 (states_last e1)) (Str ''start'')) e1)
      else Inr e)"

section \<open>Random numbers\<close>

text \<open>
  \<^verbatim>\<open>Math.random()\<close> is not a function of the program's state. Every definition that
  calls it takes the value the call returns as an argument \<open>r\<close>; the browser promises
  a double with \<open>0 \<le> r < 1\<close>, and the theorems that need the promise assume it.

  \<^verbatim>\<open>randomInRange(max, min = 0)\<close> of \<^verbatim>\<open>src/index.js\<close> (lines 196-198); an omitted
  \<open>min\<close> is \<open>None\<close>.
\<close>

definition randomInRange :: "real \<Rightarrow> num \<Rightarrow> num option \<Rightarrow> num" where
  "randomInRange r mx mn =
     (let mn' = (case mn of None \<Rightarrow> Fin 0 | Some m \<Rightarrow> m)
      in js_add (js_floor (js_mul (Fin r) (js_add (js_sub mx mn') (Fin 1)))) mn')"

text \<open>
  \<^verbatim>\<open>randomInArray(arr)\<close> of \<^verbatim>\<open>src/index.js\<close> (lines 200-202). Reading an array at
  anything but a whole number within its bounds gives undefined.
\<close>

definition randomInArray :: "real \<Rightarrow> jsval list \<Rightarrow> jsval" where
  "randomInArray r arr =
     (case randomInRange r (js_sub (Fin (real (length arr))) (Fin 1)) None of
        Fin i \<Rightarrow>
          if of_int \<lfloor>i\<rfloor> = i \<and> 0 \<le> i \<and> i < real (length arr) then arr ! nat \<lfloor>i\<rfloor>
          else Undefined
      | _ \<Rightarrow> Undefined)"


section \<open>ParticleEmitter\<close>

text \<open>Sequencing of calls that may throw: the first exception ends the sequence.\<close>

definition and_then :: "error + 'a \<Rightarrow> ('a \<Rightarrow> error + 'b) \<Rightarrow> error + 'b" where
  "and_then m f = (case m of Inl e \<Rightarrow> Inl e | Inr v \<Rightarrow> f v)"

text \<open>
  The emitter of \<^verbatim>\<open>src/index.js\<close> (lines 204-247) has the two properties \<^verbatim>\<open>limit\<close> and
  \<^verbatim>\<open>particles\<close>. The emitter of \<^verbatim>\<open>src/unnamed/part_000\<close> (lines 238-299) has these two
  and five more, so its record extends the first. The constructors store the limit
  unchecked; it is taken to be a number, of any kind.
\<close>

record emitter_index =
  limit :: num
  particles :: "gameobject list"

record hl =
  high :: num
  low :: num

record emitter_part000 = emitter_index +
  ecolor :: jsval
  esize :: jsval
  source :: xyarg
  spread :: hl
  speed :: num

text \<open>
  \<^verbatim>\<open>createParticle(x = 0, y = 0)\<close> of \<^verbatim>\<open>src/index.js\<close>: \<open>r1\<close> is the draw for the
  velocity, \<open>r2\<close> the draw for the color.
\<close>

definition createParticle_index :: "real \<Rightarrow> real \<Rightarrow> jsval \<Rightarrow> jsval \<Rightarrow> error + gameobject" where
  "createParticle_index r1 r2 x y =
     (let x' = (if x = Undefined then Num (Fin 0) else x);
          y' = (if y = Undefined then Num (Fin 0) else y)
      in createObject
           (Some (\<lambda>g.
              and_then (setPosition \<lparr> xa = x', ya = y' \<rparr> (setSize (Num (Fin 3)) Undefined g)) (\<lambda>g.
              and_then (setVelocity
                \<lparr> xa = Num (Fin 10),
                  ya = Num (randomInRange r1 (Fin 3) (Some (Fin (- 3)))) \<rparr> g) (\<lambda>g.
              and_then (setAcceleration (Num (Fin 1)) g) (\<lambda>g.
              Inr (g\<lparr> color :=
                randomInArray r2 [Str ''red'', Str ''blue'', Str ''orange'', Str ''green''] \<rparr>))))))
           True)"

text \<open>\<^verbatim>\<open>ParticleEmitter(limit = 25)\<close> of \<^verbatim>\<open>src/index.js\<close>: it always seeds one particle.\<close>

definition ParticleEmitter_index :: "real \<Rightarrow> real \<Rightarrow> num option \<Rightarrow> error + emitter_index" where
  "ParticleEmitter_index r1 r2 cap =
     and_then (createParticle_index r1 r2 (Num (Fin 300)) (Num (Fin 200))) (\<lambda>p.
       Inr \<lparr> limit = (case cap of None \<Rightarrow> Fin 25 | Some l \<Rightarrow> l), particles = [p] \<rparr>)"

text \<open>
  \<^verbatim>\<open>emit\<close> of \<^verbatim>\<open>src/index.js\<close>. The particles are moved in place before a particle is
  created, so an exception of \<^verbatim>\<open>createParticle\<close> leaves them moved: the result is the
  exception, if any, and the emitter after the call. \<^verbatim>\<open>shift\<close> on an empty array
  removes nothing.
\<close>

definition emit_index ::
  "real \<Rightarrow> real \<Rightarrow> 'a emitter_index_scheme \<Rightarrow> error option \<times> 'a emitter_index_scheme" where
  "emit_index r1 r2 em =
     (let ps = map move (particles em)
      in if js_less (Fin (real (length ps))) (limit em) then
           (case createParticle_index r1 r2 (Num (Fin 300)) (Num (Fin 200)) of
              Inl e \<Rightarrow> (Some e, em\<lparr> particles := ps \<rparr>)
            | Inr p \<Rightarrow> (None, em\<lparr> particles := ps @ [p] \<rparr>))
         else (None, em\<lparr> particles := tl ps \<rparr>))"

text \<open>
  \<^verbatim>\<open>createParticle\<close> of \<^verbatim>\<open>src/unnamed/part_000\<close>; it ignores its argument. Its init
  routine calls \<^verbatim>\<open>randomInRange\<close>, a name the file does not define. \<open>rir\<close> says whether
  the page defines the global function of that name of \<^verbatim>\<open>src/index.js\<close>. If it does
  not, evaluating the argument of \<^verbatim>\<open>setVelocity\<close> throws a ReferenceError, after
  \<^verbatim>\<open>setSize\<close> and \<^verbatim>\<open>setPosition\<close> have run.
\<close>

definition createParticle_part000 :: "bool \<Rightarrow> real \<Rightarrow> emitter_part000 \<Rightarrow> error + gameobject" where
  "createParticle_part000 rir r em =
     (let srcX = xa (source em); srcY = ya (source em)
      in createObject
           (Some (\<lambda>g.
              and_then (setPosition \<lparr> xa = srcX, ya = srcY \<rparr> (setSize (esize em) Undefined g)) (\<lambda>g.
              if \<not> rir then Inl (ReferenceError ''randomInRange is not defined'')
              else
              and_then (setVelocity
                \<lparr> xa = Num (speed em),
                  ya = Num (randomInRange r (high (spread em)) (Some (low (spread em)))) \<rparr> g) (\<lambda>g.
              and_then (setAcceleration (Num (Fin 1)) g) (\<lambda>g.
              Inr (g\<lparr> color := ecolor em \<rparr>))))))
           True)"

text \<open>
  The settings object of \<^verbatim>\<open>Engine.createEmitter\<close>. An omitted property is \<open>Undefined\<close>;
  for the two properties that are objects it is \<open>None\<close>. A spread that is given holds
  two numbers.
\<close>

record settings =
  s_color :: jsval
  s_position :: "xyarg option"
  s_size :: jsval
  s_speed :: jsval
  s_spread :: "hl option"
  s_init :: jsval

text \<open>The object \<^verbatim>\<open>{}\<close>, the default of the parameter \<^verbatim>\<open>settings\<close>.\<close>

definition empty_settings :: settings where
  "empty_settings =
     \<lparr> s_color = Undefined, s_position = None, s_size = Undefined, s_speed = Undefined,
       s_spread = None, s_init = Undefined \<rparr>"

text \<open>
  \<^verbatim>\<open>Engine.createEmitter(limit = 25, settings = {})\<close> of \<^verbatim>\<open>src/unnamed/part_000\<close>. The
  source point is read as \<^verbatim>\<open>position.x || 0\<close> and \<^verbatim>\<open>position.y || 0\<close>; reading a property
  of an undefined \<^verbatim>\<open>position\<close> throws a TypeError.
\<close>

definition createEmitter ::
  "bool \<Rightarrow> real \<Rightarrow> num option \<Rightarrow> settings option \<Rightarrow> error + emitter_part000" where
  "createEmitter rir r cap st =
     (let s = (case st of None \<Rightarrow> empty_settings | Some s \<Rightarrow> s);
          spread' = (case s_spread s of None \<Rightarrow> \<lparr> high = Fin 3, low = Fin (- 3) \<rparr> | Some sp \<Rightarrow> sp)
      in case s_position s of
           None \<Rightarrow> Inl (TypeError ''Cannot read properties of undefined'')
         | Some pos \<Rightarrow>
             (let em = \<lparr> limit = (case cap of None \<Rightarrow> Fin 25 | Some l \<Rightarrow> l),
                         particles = [],
                         ecolor = js_or (s_color s) (Str ''black''),
                         esize = js_or (s_size s) (Num (Fin 2)),
                         source = \<lparr> xa = js_or (xa pos) (Num (Fin 0)),
                                    ya = js_or (ya pos) (Num (Fin 0)) \<rparr>,
                         spread = \<lparr> high = high spread', low = low spread' \<rparr>,
                         speed = (case s_speed s of Num v \<Rightarrow> js_abs v | _ \<Rightarrow> Fin 10) \<rparr>
              in if truthy (s_init s) then
                   and_then (createParticle_part000 rir r em) (\<lambda>p. Inr (em\<lparr> particles := [p] \<rparr>))
                 else Inr em))"

text \<open>\<^verbatim>\<open>emit\<close> of \<^verbatim>\<open>src/unnamed/part_000\<close>, with the same branches as the one above.\<close>

definition emit_part000 ::
  "bool \<Rightarrow> real \<Rightarrow> emitter_part000 \<Rightarrow> error option \<times> emitter_part000" where
  "emit_part000 rir r em =
     (let ps = map move (particles em)
      in if js_less (Fin (real (length ps))) (limit em) then
           (case createParticle_part000 rir r em of
              Inl e \<Rightarrow> (Some e, em\<lparr> particles := ps \<rparr>)
            | Inr p \<Rightarrow> (None, em\<lparr> particles := ps @ [p] \<rparr>))
         else (None, em\<lparr> particles := tl ps \<rparr>))"

text \<open>
  A run of ticks: the simulation step calls \<^verbatim>\<open>emit\<close> once per tick (the \<^verbatim>\<open>loop\<close> of
  \<^verbatim>\<open>src/index.js\<close>, lines 253-255), with the draws of that tick. An exception ends the
  tick, not the timer, so the next tick starts from the emitter the failed call left.
\<close>

fun emits_index :: "(real \<times> real) list \<Rightarrow> 'a emitter_index_scheme \<Rightarrow> 'a emitter_index_scheme" where
  "emits_index [] em = em"
| "emits_index (r # rs) em = emits_index rs (snd (emit_index (fst r) (snd r) em))"

fun emits_part000 :: "bool \<Rightarrow> real list \<Rightarrow> emitter_part000 \<Rightarrow> emitter_part000" where
  "emits_part000 rir [] em = em"
| "emits_part000 rir (r # rs) em = emits_part000 rir rs (snd (emit_part000 rir r em))"

section \<open>Properties of the numbers\<close>

lemma round_even_of_int: "round_even (of_int m) = m"
  by (simp add: round_even_def)



lemma quantum_pos: "0 < quantum x"
  by (simp add: quantum_def)

lemma powi_less_exp:
  assumes "(2::real) powi a < 2 powi b"
  shows "a < b"
proof (rule ccontr)
  assume "\<not> a < b"
  then have "(2::real) powi b \<le> 2 powi a" by (intro power_int_increasing) simp_all
  with assms show False by simp
qed

lemma bitlen_pos: "0 < m \<Longrightarrow> 0 < bitlen m"
  using bitlen_bounds [of m] by (cases "bitlen m \<le> 0") auto

lemma int_le_pow2_real:
  fixes a :: int
  assumes "a \<le> 2 ^ n"
  shows "real_of_int a \<le> 2 ^ n"
proof -
  have "real_of_int a \<le> real_of_int (2 ^ n)" using assms by (simp only: of_int_le_iff)
  also have "\<dots> = 2 ^ n" by simp
  finally show ?thesis .
qed

lemma pow2_le_int_real:
  fixes a :: int
  assumes "2 ^ n \<le> a"
  shows "(2::real) ^ n \<le> real_of_int a"
proof -
  have "(2::real) ^ n = real_of_int (2 ^ n)" by simp
  also have "\<dots> \<le> real_of_int a" using assms by (simp only: of_int_le_iff)
  finally show ?thesis .
qed

text \<open>The leading bit of a nonzero real.\<close>

lemma exponent_bounds:
  fixes x :: real
  assumes "x \<noteq> 0"
  shows "2 powi exponent x \<le> \<bar>x\<bar>" "\<bar>x\<bar> < 2 powi (exponent x + 1)"
proof -
  have "2 powi exponent x \<le> \<bar>x\<bar> \<and> \<bar>x\<bar> < 2 powi (exponent x + 1)"
  proof (cases "1 \<le> \<bar>x\<bar>")
    case True
    define m where "m = \<lfloor>\<bar>x\<bar>\<rfloor>"
    have m1: "1 \<le> m" using True by (simp add: m_def)
    then have m0: "0 < m" by simp
    have e: "exponent x = bitlen m - 1" using True by (simp add: exponent_def m_def)
    have bp: "0 < bitlen m" by (rule bitlen_pos [OF m0])
    from bitlen_bounds [OF m0] have lo: "2 ^ nat (bitlen m - 1) \<le> m" and hi: "m < 2 ^ nat (bitlen m)"
      by simp_all
    have "(2::real) powi (bitlen m - 1) = 2 ^ nat (bitlen m - 1)"
      using bp by (simp add: power_int_def)
    also have "\<dots> \<le> of_int m" using lo by (rule pow2_le_int_real)
    also have "\<dots> \<le> \<bar>x\<bar>" by (simp add: m_def)
    finally have A: "2 powi (bitlen m - 1) \<le> \<bar>x\<bar>" .
    have "m + 1 \<le> 2 ^ nat (bitlen m)" using hi by simp
    then have "real_of_int (m + 1) \<le> 2 ^ nat (bitlen m)" by (rule int_le_pow2_real)
    moreover have "\<bar>x\<bar> < of_int (m + 1)" by (simp add: m_def)
    ultimately have "\<bar>x\<bar> < 2 ^ nat (bitlen m)" by linarith
    also have "\<dots> = (2::real) powi (bitlen m - 1 + 1)" using bp by (simp add: power_int_def)
    finally have B: "\<bar>x\<bar> < 2 powi (bitlen m - 1 + 1)" .
    from A B show ?thesis unfolding e by blast
  next
    case False
    define y where "y = 1 / \<bar>x\<bar>"
    define m where "m = \<lceil>y\<rceil> - 1"
    define j where "j = bitlen m"
    have xp: "0 < \<bar>x\<bar>" using assms by simp
    have y1: "1 < y" using False xp by (simp add: y_def)
    then have "2 \<le> \<lceil>y\<rceil>" by (simp add: le_ceiling_iff)
    then have m0: "0 < m" by (simp add: m_def)
    have e: "exponent x = - j" using False by (simp add: exponent_def m_def y_def j_def)
    have jp: "0 < j" unfolding j_def by (rule bitlen_pos [OF m0])
    from bitlen_bounds [OF m0] have lo: "2 ^ nat (j - 1) \<le> m" and hi: "m < 2 ^ nat j"
      by (simp_all add: j_def)
    have "m + 1 \<le> 2 ^ nat j" using hi by simp
    then have l3: "real_of_int (m + 1) \<le> 2 ^ nat j" by (rule int_le_pow2_real)
    have l4: "y \<le> of_int (m + 1)" using ceiling_correct [of y] by (simp add: m_def)
    from l3 l4 have yle: "y \<le> 2 ^ nat j" by linarith
    have l1: "(2::real) ^ nat (j - 1) \<le> of_int m" using lo by (rule pow2_le_int_real)
    have l2: "of_int m < y" using ceiling_correct [of y] by (simp add: m_def)
    from l1 l2 have ygt: "2 ^ nat (j - 1) < y" by linarith
    have xi: "\<bar>x\<bar> = 1 / y" using xp by (simp add: y_def)
    have yp: "0 < y" using y1 by simp
    have "(2::real) powi (- j) = 1 / 2 ^ nat j" using jp by (simp add: power_int_def field_simps)
    also have "\<dots> \<le> 1 / y" using yle yp by (intro divide_left_mono) simp_all
    finally have A: "2 powi (- j) \<le> \<bar>x\<bar>" unfolding xi .
    have "1 / y < 1 / 2 ^ nat (j - 1)"
      using ygt yp by (intro divide_strict_left_mono) simp_all
    also have "\<dots> = (2::real) powi (- j + 1)"
    proof (cases "j = 1")
      case True
      then show ?thesis by simp
    next
      case False
      with jp have "- j + 1 < 0" "nat (j - 1) = nat (- (- j + 1))" by simp_all
      then show ?thesis by (simp add: power_int_def field_simps)
    qed
    finally have B: "\<bar>x\<bar> < 2 powi (- j + 1)" unfolding xi .
    from A B show ?thesis unfolding e by blast
  qed
  then show "2 powi exponent x \<le> \<bar>x\<bar>" "\<bar>x\<bar> < 2 powi (exponent x + 1)" by blast+
qed


text \<open>A value \<open>m * 2 powi k\<close> with a significand \<open>m\<close> of at most 53 bits and an exponent
  \<open>k\<close> in the range of the format is a double.\<close>

lemma rd_dyadic:
  fixes m k :: int
  assumes m: "\<bar>m\<bar> < 2 ^ 53" and k: "- 1074 \<le> k" "k \<le> 971"
  shows "rd (of_int m * 2 powi k) = Fin (of_int m * 2 powi k)"
proof (cases "m = 0")
  case True
  then show ?thesis by (simp add: rd_def)
next
  case False
  define x :: real where "x = of_int m * 2 powi k"
  define e where "e = exponent x"
  have x0: "x \<noteq> 0" using False by (simp add: x_def)
  have absx: "\<bar>x\<bar> = of_int \<bar>m\<bar> * 2 powi k" by (simp add: x_def abs_mult)
  have "of_int \<bar>m\<bar> < (2::real) ^ 53" using m by simp
  then have "\<bar>x\<bar> < 2 ^ 53 * 2 powi k" unfolding absx by simp
  also have "\<dots> = 2 powi (53 + k)" by (simp add: power_int_add)
  finally have up: "\<bar>x\<bar> < 2 powi (53 + k)" .
  have "2 powi e \<le> \<bar>x\<bar>" unfolding e_def by (rule exponent_bounds(1) [OF x0])
  with up have "(2::real) powi e < 2 powi (53 + k)" by simp
  then have ek: "e < 53 + k" by (rule powi_less_exp)
  define e' where "e' = max e (- 1022)"
  define j where "j = k - (e' - 52)"
  have j0: "0 \<le> j" using ek k by (simp add: j_def e'_def)
  have q: "quantum x = 2 powi (e' - 52)" by (simp add: quantum_def e'_def e_def)
  have "x / quantum x = x / 2 powi (e' - 52)" by (simp only: q)
  also have "\<dots> = of_int m * (2 powi k / 2 powi (e' - 52))" by (simp add: x_def)
  also have "2 powi k / 2 powi (e' - 52) = (2::real) powi j"
    by (simp add: j_def power_int_diff)
  also have "(2::real) powi j = of_int (2 ^ nat j)" using j0 by (simp add: power_int_def)
  finally have xi: "x / quantum x = of_int (m * 2 ^ nat j)" by simp
  have "of_int (round_even (x / quantum x)) * quantum x = x"
    unfolding xi round_even_of_int using xi quantum_pos [of x]
    by (metis nonzero_eq_divide_eq less_irrefl)
  moreover have "\<bar>x\<bar> < 2 ^ 1024"
  proof -
    have "(2::real) powi (53 + k) \<le> 2 powi 1024"
      using k by (intro power_int_increasing) simp_all
    with up show ?thesis by simp
  qed
  ultimately have "rd x = Fin x"
    using x0 by (auto simp: rd_def Let_def)
  then show ?thesis by (simp add: x_def)
qed

lemma rd_int:
  fixes n :: int
  assumes "\<bar>n\<bar> < 2 ^ 53"
  shows "rd (of_int n) = Fin (of_int n)"
  using rd_dyadic [OF assms, of 0] by simp





text \<open>Adding zero leaves a number as it is; zero times a finite number is zero.\<close>

lemma js_add_zero: "is_double_num p \<Longrightarrow> js_add p (Fin 0) = p"
  by (cases p) (simp_all add: is_double_def)

lemma js_mul_zero_left: "is_finite a \<Longrightarrow> js_mul (Fin 0) a = Fin 0"
  by (cases a) (simp_all add: rd_def)

lemma js_mul_zero_right: "is_finite v \<Longrightarrow> js_mul v (Fin 0) = Fin 0"
  by (cases v) (simp_all add: rd_def)

section \<open>Properties of GameObject\<close>

lemma move_position:
  "position (move g) =
     \<lparr> xc = js_add (xc (position g)) (js_mul (xc (velocity g)) (acceleration g)),
       yc = js_add (yc (position g)) (js_mul (yc (velocity g)) (acceleration g)) \<rparr>"
  by (simp add: move_def Let_def)

text \<open>
  Claim C3, as the code has it. \<open>move\<close> sets the position to position + velocity *
  acceleration on each axis, in the arithmetic of doubles. It leaves the position as it
  was when both velocity components are zero and the acceleration is finite, and when
  the acceleration is zero and both velocity components are finite. (The coordinates of
  a position are doubles, as every number of the program is; the type \<open>num\<close> cannot say
  so, hence the two hypotheses \<open>is_double_num\<close>.)
\<close>

theorem C3_move_integrates:
  "xc (position (move g)) =
     js_add (xc (position g)) (js_mul (xc (velocity g)) (acceleration g)) \<and>
   yc (position (move g)) =
     js_add (yc (position g)) (js_mul (yc (velocity g)) (acceleration g)) \<and>
   (is_double_num (xc (position g)) \<and> is_double_num (yc (position g)) \<and>
    ((xc (velocity g) = Fin 0 \<and> yc (velocity g) = Fin 0 \<and> is_finite (acceleration g)) \<or>
     (acceleration g = Fin 0 \<and> is_finite (xc (velocity g)) \<and> is_finite (yc (velocity g))))
      \<longrightarrow> position (move g) = position g)"
  by (auto simp: move_position js_add_zero js_mul_zero_left js_mul_zero_right)

theorem C3_move_integrates_witness:
  "position (move (new_object\<lparr> position := \<lparr> xc = Fin 3, yc = Fin 4 \<rparr>,
                               velocity := \<lparr> xc = Fin 10, yc = Fin (- 2) \<rparr>,
                               acceleration := Fin 0 \<rparr>))
     = \<lparr> xc = Fin 3, yc = Fin 4 \<rparr> \<and>
   position (move (new_object\<lparr> position := \<lparr> xc = Fin 3, yc = Fin 4 \<rparr>,
                               acceleration := Fin (1 / 2) \<rparr>))
     = \<lparr> xc = Fin 3, yc = Fin 4 \<rparr>"
proof -
  have d: "is_double 3" "is_double 4"
    using rd_int [of 3] rd_int [of 4] by (simp_all add: is_double_def)
  show ?thesis
    using C3_move_integrates
      [of "new_object\<lparr> position := \<lparr> xc = Fin 3, yc = Fin 4 \<rparr>,
                       velocity := \<lparr> xc = Fin 10, yc = Fin (- 2) \<rparr>, acceleration := Fin 0 \<rparr>"]
      C3_move_integrates
      [of "new_object\<lparr> position := \<lparr> xc = Fin 3, yc = Fin 4 \<rparr>,
                       acceleration := Fin (1 / 2) \<rparr>"] d
    by (simp add: new_object_def)
qed

text \<open>
  The claim as stated fails on a new object (position 0, acceleration 0) whose velocity
  \<^verbatim>\<open>setVelocity\<close> has set to Infinity on one axis: Infinity times 0 is NaN, and the
  position becomes NaN. It fails likewise with velocity 0 once the acceleration is NaN.
\<close>

theorem C3_infinite_velocity_moves:
  "setVelocity \<lparr> xa = Num PInf, ya = Undefined \<rparr> new_object =
     Inr (new_object\<lparr> velocity := \<lparr> xc = PInf, yc = Fin 0 \<rparr> \<rparr>) \<and>
   acceleration (new_object\<lparr> velocity := \<lparr> xc = PInf, yc = Fin 0 \<rparr> \<rparr>) = Fin 0 \<and>
   xc (position (new_object\<lparr> velocity := \<lparr> xc = PInf, yc = Fin 0 \<rparr> \<rparr>)) = Fin 0 \<and>
   xc (position (move (new_object\<lparr> velocity := \<lparr> xc = PInf, yc = Fin 0 \<rparr> \<rparr>))) = NaN \<and>
   velocity (new_object\<lparr> acceleration := NaN \<rparr>) = \<lparr> xc = Fin 0, yc = Fin 0 \<rparr> \<and>
   xc (position (move (new_object\<lparr> acceleration := NaN \<rparr>))) = NaN"
  by (simp add: setVelocity_def move_position new_object_def)

text \<open>What \<open>setAcceleration\<close> does with every argument but NaN.\<close>

lemma setAcceleration_cases:
  "(\<not> is_number a \<longrightarrow>
      setAcceleration a g = Inl (Error ''setAcceleration must be called with a number.'')) \<and>
   (\<forall>r. a = Num (Fin r) \<and> (r < 0 \<or> 1 < r) \<longrightarrow>
      setAcceleration a g = Inl (Error ''Acceleration must be between 0 and 1.'')) \<and>
   (a = Num PInf \<or> a = Num NInf \<longrightarrow>
      setAcceleration a g = Inl (Error ''Acceleration must be between 0 and 1.'')) \<and>
   (\<forall>r. a = Num (Fin r) \<and> 0 \<le> r \<and> r \<le> 1 \<longrightarrow>
      setAcceleration a g = Inr (g\<lparr> acceleration := Fin r \<rparr>)) \<and>
   setAcceleration (Num (Fin (- 0.1))) g = Inl (Error ''Acceleration must be between 0 and 1.'') \<and>
   setAcceleration (Num (Fin 1.1)) g = Inl (Error ''Acceleration must be between 0 and 1.'') \<and>
   setAcceleration (Num (Fin 0)) g = Inr (g\<lparr> acceleration := Fin 0 \<rparr>) \<and>
   setAcceleration (Num (Fin 1)) g = Inr (g\<lparr> acceleration := Fin 1 \<rparr>)"
  by (cases a) (auto simp: setAcceleration_def)

text \<open>
  Claim C4. \<open>setAcceleration a\<close> throws when \<open>a\<close> is not a number and when it is
  outside the interval from 0 to 1, and otherwise stores \<open>a\<close>. The code does so for every
  argument but one (\<open>setAcceleration_cases\<close>): NaN passes \<^verbatim>\<open>typeof\<close>, both comparisons
  \<^verbatim>\<open>a < 0\<close> and \<^verbatim>\<open>a > 1\<close> are false, and NaN is stored as the acceleration.
\<close>

theorem C4_setAcceleration_accepts_NaN:
  "is_number (Num NaN) \<and> setAcceleration (Num NaN) g = Inr (g\<lparr> acceleration := NaN \<rparr>)"
  by (simp add: setAcceleration_def)

text \<open>
  Claim C9. \<open>move\<close> writes the position only: velocity, acceleration, size and color
  are the same after the call as before it.
\<close>

theorem C9_move_frame:
  "velocity (move g) = velocity g \<and> acceleration (move g) = acceleration g \<and>
   size_wh (move g) = size_wh g \<and> color (move g) = color g"
  by (simp add: move_def Let_def)

section \<open>Properties of the Engine\<close>

lemma hasOwnProperty_index:
  "hasOwnProperty (states_index l) a \<longleftrightarrow>
     a \<in> Str ` {''init'', ''start'', ''play'', ''pause'', ''end'', ''last''}"
  by (cases a) (auto simp: hasOwnProperty_def states_index_def)

lemma hasOwnProperty_part000:
  "hasOwnProperty (states_part000 l) a \<longleftrightarrow>
     a \<in> Str ` {''init'', ''start'', ''play'', ''pause'', ''end'', ''last''}"
  by (cases a) (auto simp: hasOwnProperty_def states_part000_def)

lemma strict_eq_iff: "strict_eq v a \<longleftrightarrow> v = a \<and> a \<noteq> Num NaN"
  by (induction v a rule: strict_eq.induct) auto

lemma vals_part000:
  "list_ex (\<lambda>v. strict_eq v a) (map snd (states_part000 l)) \<longleftrightarrow>
     a \<in> {Num (Fin 0), Num (Fin 1), Num (Fin 2), Num (Fin 3), Num (Fin 4), l} \<and> a \<noteq> Num NaN"
  by (auto simp: states_part000_def strict_eq_iff)

lemma prop_last_index: "get_prop (states_index l) (Str ''last'') = l"
  by (simp add: get_prop_def states_index_def)

lemma prop_last_part000: "get_prop (states_part000 l) (Str ''last'') = l"
  by (simp add: get_prop_def states_part000_def)

lemma prop_init_index: "get_prop (states_index l) (Str ''init'') = Str ''INIT''"
  by (simp add: get_prop_def states_index_def)

lemma prop_init_part000: "get_prop (states_part000 l) (Str ''init'') = Num (Fin 0)"
  by (simp add: get_prop_def states_part000_def)

lemma prop_start_part000: "get_prop (states_part000 l) (Str ''start'') = Num (Fin 1)"
  by (simp add: get_prop_def states_part000_def)

text \<open>
  What \<open>start\<close> does in each file. Outside the initial state it changes nothing. In
  the initial state both files assign \<^verbatim>\<open>this.render\<close>, register the simulation step and
  request the first frame; \<^verbatim>\<open>src/unnamed/part_000\<close> then moves to the state \<^verbatim>\<open>start\<close> and
  remembers the initial state, \<^verbatim>\<open>src/index.js\<close> keeps the initial state.
\<close>

lemma start_both:
  "(state e \<noteq> Num (Fin 0) \<longrightarrow> start_part000 e = Inr e) \<and>
   (state e = Num (Fin 0) \<longrightarrow>
      start_part000 e =
        Inr (e\<lparr> render_installed := True,
                 effects := effects e @ [SetInterval 50, RequestAnimationFrame],
                 states_last := Num (Fin 0), state := Num (Fin 1) \<rparr>)) \<and>
   (state e \<noteq> Str ''INIT'' \<longrightarrow> start_index e = e) \<and>
   (state e = Str ''INIT'' \<longrightarrow>
      start_index e =
        e\<lparr> render_installed := True,
           effects := effects e @ [SetInterval 50, RequestAnimationFrame] \<rparr>)"
  unfolding start_part000_def start_index_def setState_part000_def Let_def vals_part000
  by (simp add: prop_init_index prop_init_part000 prop_start_part000 strict_eq_iff)

text \<open>
  Claim C5. \<open>start\<close> changes nothing outside the state INIT; called in the state INIT
  it installs the render loop and the simulation loop and moves the engine to the state
  START. The engine of \<^verbatim>\<open>src/unnamed/part_000\<close> does so (\<open>start_both\<close>). The engine of
  \<^verbatim>\<open>src/index.js\<close> installs the loops and stays in INIT, so that a second call of
  \<open>start\<close> passes the guard again and registers a second timer.
\<close>

theorem C5_start_index_stays_INIT:
  "state Engine_index = Str ''INIT'' \<and>
   start_index Engine_index =
     Engine_index\<lparr> render_installed := True,
                    effects := [SetInterval 50, RequestAnimationFrame] \<rparr> \<and>
   state (start_index Engine_index) = Str ''INIT'' \<and>
   effects (start_index (start_index Engine_index)) =
     [SetInterval 50, RequestAnimationFrame, SetInterval 50, RequestAnimationFrame] \<and>
   start_part000 Engine_part000 =
     Inr (Engine_part000\<lparr> render_installed := True,
                              effects := [SetInterval 50, RequestAnimationFrame],
                              states_last := Num (Fin 0), state := Num (Fin 1) \<rparr>)"
  unfolding start_part000_def start_index_def setState_part000_def Let_def vals_part000
  by (simp add: Engine_index_def Engine_part000_def prop_init_index prop_init_part000
      prop_start_part000 strict_eq_iff)

text \<open>
  Claim C7, as the code has it. In \<^verbatim>\<open>src/unnamed/part_000\<close>, \<open>setState\<close> accepts a value
  of the states table (the five state values and the current value of \<^verbatim>\<open>last\<close>) and
  makes it the state; it accepts a name of the table and makes the named value the
  state; it throws on any other argument, NaN among them. In \<^verbatim>\<open>src/index.js\<close>,
  \<open>setState\<close> accepts a name of the table only and throws on any other argument. In both
  files a call that succeeds records the state before the call as the remembered
  previous state.
\<close>

theorem C7_setState:
  "(a \<in> {Num (Fin 0), Num (Fin 1), Num (Fin 2), Num (Fin 3), Num (Fin 4), states_last e} \<and>
    a \<noteq> Num NaN \<longrightarrow>
      setState_part000 a e = Inr (e\<lparr> states_last := state e, state := a \<rparr>)) \<and>
   (a \<notin> {Num (Fin 0), Num (Fin 1), Num (Fin 2), Num (Fin 3), Num (Fin 4), states_last e} \<and>
    a \<in> Str ` {''init'', ''start'', ''play'', ''pause'', ''end'', ''last''} \<longrightarrow>
      setState_part000 a e =
        Inr (e\<lparr> states_last := state e, state := get_prop (states_part000 (state e)) a \<rparr>)) \<and>
   (a \<notin> {Num (Fin 0), Num (Fin 1), Num (Fin 2), Num (Fin 3), Num (Fin 4), states_last e} \<and>
    a \<notin> Str ` {''init'', ''start'', ''play'', ''pause'', ''end'', ''last''} \<longrightarrow>
      setState_part000 a e = Inl (Error ''Cannot find state '')) \<and>
   (a = Num NaN \<longrightarrow> setState_part000 a e = Inl (Error ''Cannot find state '')) \<and>
   (a \<in> Str ` {''init'', ''start'', ''play'', ''pause'', ''end'', ''last''} \<longrightarrow>
      setState_index a e =
        Inr (e\<lparr> states_last := state e, state := get_prop (states_index (state e)) a \<rparr>)) \<and>
   (a \<notin> Str ` {''init'', ''start'', ''play'', ''pause'', ''end'', ''last''} \<longrightarrow>
      setState_index a e = Inl (Error ''No state found for ''))"
  unfolding setState_index_def setState_part000_def hasOwnProperty_index
      hasOwnProperty_part000 Let_def vals_part000
  by auto

theorem C7_setState_witness:
  "setState_part000 (Num (Fin 3)) Engine_part000 =
     Inr (Engine_part000\<lparr> states_last := Num (Fin 0), state := Num (Fin 3) \<rparr>) \<and>
   setState_part000 (Str ''pause'') Engine_part000 =
     Inr (Engine_part000\<lparr> states_last := Num (Fin 0), state := Num (Fin 3) \<rparr>) \<and>
   setState_part000 (Str ''PAUSE'') Engine_part000 = Inl (Error ''Cannot find state '') \<and>
   setState_part000 (Num NaN) Engine_part000 = Inl (Error ''Cannot find state '') \<and>
   setState_index (Str ''pause'') Engine_index =
     Inr (Engine_index\<lparr> states_last := Str ''INIT'', state := Str ''PAUSE'' \<rparr>) \<and>
   setState_index (Num (Fin 3)) Engine_index = Inl (Error ''No state found for '')"
  using C7_setState [of "Num (Fin 3)" Engine_part000]
        C7_setState [of "Str ''pause''" Engine_part000]
        C7_setState [of "Str ''PAUSE''" Engine_part000]
        C7_setState [of "Num NaN" Engine_part000]
        C7_setState [of "Str ''pause''" Engine_index]
        C7_setState [of "Num (Fin 3)" Engine_index]
  by (simp add: Engine_part000_def Engine_index_def get_prop_def states_part000_def
      states_index_def)

text \<open>
  The claim as stated fails in \<^verbatim>\<open>src/index.js\<close>: the engine is in the state whose
  internal value is \<^verbatim>\<open>'INIT'\<close>, and \<open>setState\<close> throws on that value.
\<close>

theorem C7_setState_index_rejects_value:
  "state Engine_index = Str ''INIT'' \<and>
   get_prop (states_index Null) (Str ''init'') = Str ''INIT'' \<and>
   setState_index (Str ''INIT'') Engine_index = Inl (Error ''No state found for '')"
  by (simp add: setState_index_def hasOwnProperty_index Engine_index_def prop_init_index)

text \<open>
  The values an engine of \<^verbatim>\<open>src/unnamed/part_000\<close> can hold: \<open>setState\<close> keeps the state
  and the remembered state among the five state values and null.
\<close>

lemma setState_part000_values:
  assumes "state e \<in> {Num (Fin 0), Num (Fin 1), Num (Fin 2), Num (Fin 3), Num (Fin 4), Null}"
    "states_last e \<in> {Num (Fin 0), Num (Fin 1), Num (Fin 2), Num (Fin 3), Num (Fin 4), Null}"
    "setState_part000 a e = Inr e'"
  shows "state e' \<in> {Num (Fin 0), Num (Fin 1), Num (Fin 2), Num (Fin 3), Num (Fin 4), Null} \<and>
         states_last e' \<in> {Num (Fin 0), Num (Fin 1), Num (Fin 2), Num (Fin 3), Num (Fin 4), Null}"
proof (cases "list_ex (\<lambda>v. strict_eq v a) (map snd (states_part000 (states_last e)))")
  case True
  then have "e' = e\<lparr> states_last := state e, state := a \<rparr>"
    using assms(3) by (simp add: setState_part000_def Let_def)
  with True assms(1,2) show ?thesis unfolding vals_part000 by auto
next
  case False
  then have "hasOwnProperty (states_part000 (state e)) a"
    and e': "e' = e\<lparr> states_last := state e, state := get_prop (states_part000 (state e)) a \<rparr>"
    using assms(3) by (auto simp: setState_part000_def Let_def split: if_splits)
  then have "a \<in> Str ` {''init'', ''start'', ''play'', ''pause'', ''end'', ''last''}"
    by (simp only: hasOwnProperty_part000)
  then have "get_prop (states_part000 (state e)) a \<in>
      {Num (Fin 0), Num (Fin 1), Num (Fin 2), Num (Fin 3), Num (Fin 4), state e}"
    by (auto simp: get_prop_def states_part000_def)
  with e' assms(1) show ?thesis by auto
qed

text \<open>
  Claim C10, as the code has it. \<open>setState\<close> with the string \<^verbatim>\<open>'last'\<close> does not throw.
  It records the current state as the remembered previous state, and then reads the
  entry \<^verbatim>\<open>last\<close> it has just written: the state of the engine is the same after the call
  as before it. In \<^verbatim>\<open>src/unnamed/part_000\<close> this is so whenever the remembered value is
  not itself the string \<^verbatim>\<open>'last'\<close>, which it never is on an engine that starts from its
  constructor (\<open>setState_part000_values\<close>).
\<close>

theorem C10_setState_last:
  "setState_index (Str ''last'') e = Inr (e\<lparr> states_last := state e \<rparr>) \<and>
   (states_last e \<noteq> Str ''last'' \<longrightarrow>
      setState_part000 (Str ''last'') e = Inr (e\<lparr> states_last := state e \<rparr>))"
  by (simp add: setState_index_def setState_part000_def hasOwnProperty_index
      hasOwnProperty_part000 vals_part000 prop_last_index prop_last_part000 Let_def)

theorem C10_setState_last_witness:
  "states_last Engine_part000 \<noteq> Str ''last'' \<and>
   setState_part000 (Str ''last'') Engine_part000 =
     Inr (Engine_part000\<lparr> states_last := Num (Fin 0) \<rparr>)"
  using C10_setState_last [of Engine_part000]
  by (simp add: Engine_part000_def prop_init_part000)

text \<open>
  The claim as stated fails on a new engine: nothing has been remembered (\<^verbatim>\<open>last\<close> is
  null), and after \<open>setState\<close> with \<^verbatim>\<open>'last'\<close> the state is the initial state, not null.
\<close>

theorem C10_setState_last_not_previous:
  "states_last Engine_index = Null \<and>
   setState_index (Str ''last'') Engine_index =
     Inr \<lparr> state = Str ''INIT'', states_last = Str ''INIT'', render_installed = False,
           effects = [] \<rparr> \<and>
   states_last Engine_part000 = Null \<and>
   setState_part000 (Str ''last'') Engine_part000 =
     Inr \<lparr> state = Num (Fin 0), states_last = Num (Fin 0), render_installed = False,
           effects = [] \<rparr>"
  by (simp add: setState_index_def setState_part000_def hasOwnProperty_index
      hasOwnProperty_part000 vals_part000 prop_last_index prop_last_part000 Let_def
      Engine_index_def Engine_part000_def prop_init_index prop_init_part000)

section \<open>Properties of the random numbers\<close>






section \<open>Properties of the ParticleEmitter\<close>

lemma js_less_count: "js_less (Fin (real l)) (Fin (of_int k)) \<longleftrightarrow> int l < k"
proof -
  have "real l < real_of_int k \<longleftrightarrow> real_of_int (int l) < real_of_int k" by simp
  also have "\<dots> \<longleftrightarrow> int l < k" by (simp only: of_int_less_iff)
  finally show ?thesis by simp
qed

lemma js_less_count_nat: "js_less (Fin (real l)) (Fin (real n)) \<longleftrightarrow> l < n"
  by simp

lemma createParticle_index_ok:
  "createParticle_index r1 r2 (Num (Fin 300)) (Num (Fin 200)) =
     Inr \<lparr> position = \<lparr> xc = Fin 300, yc = Fin 200 \<rparr>,
           velocity = \<lparr> xc = Fin 10, yc = randomInRange r1 (Fin 3) (Some (Fin (- 3))) \<rparr>,
           acceleration = Fin 1, size_wh = \<lparr> width = Num (Fin 3), height = Num (Fin 3) \<rparr>,
           color = randomInArray r2 [Str ''red'', Str ''blue'', Str ''orange'', Str ''green''] \<rparr>"
  by (simp add: createParticle_index_def createObject_def and_then_def setPosition_def
      setVelocity_def setAcceleration_def setSize_def new_object_def Let_def)

text \<open>With a source point of two numbers and the global \<^verbatim>\<open>randomInRange\<close> defined,
  \<open>createParticle\<close> does not throw. Without the global it always throws.\<close>

lemma createParticle_part000_ok:
  assumes "source em = \<lparr> xa = Num a, ya = Num b \<rparr>"
  shows "createParticle_part000 True r em =
     Inr \<lparr> position = \<lparr> xc = a, yc = b \<rparr>,
           velocity = \<lparr> xc = speed em,
                        yc = randomInRange r (high (spread em)) (Some (low (spread em))) \<rparr>,
           acceleration = Fin 1, size_wh = \<lparr> width = esize em, height = esize em \<rparr>,
           color = ecolor em \<rparr>"
  using assms
  by (simp add: createParticle_part000_def createObject_def and_then_def setPosition_def
      setVelocity_def setAcceleration_def setSize_def new_object_def Let_def)



lemma emit_index_particles:
  "particles (snd (emit_index r1 r2 em)) =
     (if js_less (Fin (real (length (particles em)))) (limit em)
      then map move (particles em) @
           [\<lparr> position = \<lparr> xc = Fin 300, yc = Fin 200 \<rparr>,
              velocity = \<lparr> xc = Fin 10, yc = randomInRange r1 (Fin 3) (Some (Fin (- 3))) \<rparr>,
              acceleration = Fin 1, size_wh = \<lparr> width = Num (Fin 3), height = Num (Fin 3) \<rparr>,
              color = randomInArray r2
                [Str ''red'', Str ''blue'', Str ''orange'', Str ''green''] \<rparr>]
      else tl (map move (particles em)))"
  by (simp add: emit_index_def createParticle_index_ok Let_def)

lemma emit_index_limit: "limit (snd (emit_index r1 r2 em)) = limit em"
  by (simp add: emit_index_def Let_def split: sum.splits)

lemma emit_part000_rest:
  "limit (snd (emit_part000 rir r em)) = limit em \<and>
   source (snd (emit_part000 rir r em)) = source em"
  by (simp add: emit_part000_def Let_def split: sum.splits)


text \<open>Whether or not \<open>createParticle\<close> throws, a call adds at most one particle below the
  limit and removes one at or above it.\<close>

lemma emit_part000_length_le:
  "length (particles (snd (emit_part000 rir r em))) \<le>
     (if js_less (Fin (real (length (particles em)))) (limit em) then length (particles em) + 1
      else length (particles em) - 1)"
  by (simp add: emit_part000_def Let_def split: sum.splits)



lemma emits_index_limit: "limit (emits_index rs em) = limit em"
  by (induction rs arbitrary: em) (simp_all add: emit_index_limit)


lemma emits_index_bounded:
  "limit em = Fin (of_int k) \<Longrightarrow> int (length (particles em)) \<le> k \<Longrightarrow>
     int (length (particles (emits_index rs em))) \<le> k"
proof (induction rs arbitrary: em)
  case Nil
  then show ?case by simp
next
  case (Cons r rs)
  let ?em = "snd (emit_index (fst r) (snd r) em)"
  have "int (length (particles ?em)) \<le> k"
    using Cons.prems by (simp add: emit_index_particles js_less_count) arith
  moreover have "limit ?em = Fin (of_int k)" using Cons.prems(1) by (simp add: emit_index_limit)
  ultimately show ?case using Cons.IH [of ?em] by simp
qed

lemma emits_part000_bounded:
  "limit em = Fin (of_int k) \<Longrightarrow> int (length (particles em)) \<le> k \<Longrightarrow>
     int (length (particles (emits_part000 rir rs em))) \<le> k"
proof (induction rs arbitrary: em)
  case Nil
  then show ?case by simp
next
  case (Cons r rs)
  let ?em = "snd (emit_part000 rir r em)"
  have "int (length (particles ?em)) \<le> k"
    using Cons.prems emit_part000_length_le [of rir r em]
    by (simp add: js_less_count split: if_splits)
  moreover have "limit ?em = Fin (of_int k)" using Cons.prems(1) by (simp add: emit_part000_rest)
  ultimately show ?case using Cons.IH [of ?em] by simp
qed

text \<open>The constructor of \<^verbatim>\<open>src/unnamed/part_000\<close> on a settings object that holds an
  empty position and nothing else, and on one that also holds a speed and the init flag.\<close>

lemma createEmitter_defaults:
  "createEmitter rir r cap
     (Some (empty_settings\<lparr> s_position := Some \<lparr> xa = Undefined, ya = Undefined \<rparr> \<rparr>)) =
     Inr \<lparr> limit = (case cap of None \<Rightarrow> Fin 25 | Some l \<Rightarrow> l), particles = [],
           ecolor = Str ''black'', esize = Num (Fin 2),
           source = \<lparr> xa = Num (Fin 0), ya = Num (Fin 0) \<rparr>,
           spread = \<lparr> high = Fin 3, low = Fin (- 3) \<rparr>, speed = Fin 10 \<rparr>"
  by (simp add: createEmitter_def empty_settings_def js_or_def)

lemma createEmitter_speed_init:
  "createEmitter True r cap
     (Some (empty_settings\<lparr> s_position := Some \<lparr> xa = Undefined, ya = Undefined \<rparr>,
        s_speed := Num v, s_init := Bool True \<rparr>)) =
     Inr \<lparr> limit = (case cap of None \<Rightarrow> Fin 25 | Some l \<Rightarrow> l),
           particles = [\<lparr> position = \<lparr> xc = Fin 0, yc = Fin 0 \<rparr>,
              velocity = \<lparr> xc = js_abs v, yc = randomInRange r (Fin 3) (Some (Fin (- 3))) \<rparr>,
              acceleration = Fin 1, size_wh = \<lparr> width = Num (Fin 2), height = Num (Fin 2) \<rparr>,
              color = Str ''black'' \<rparr>],
           ecolor = Str ''black'', esize = Num (Fin 2),
           source = \<lparr> xa = Num (Fin 0), ya = Num (Fin 0) \<rparr>,
           spread = \<lparr> high = Fin 3, low = Fin (- 3) \<rparr>, speed = js_abs v \<rparr>"
  by (simp add: createEmitter_def empty_settings_def js_or_def and_then_def
      createParticle_part000_ok)

lemma createEmitter_unseeded:
  assumes "createEmitter rir r cap (Some st) = Inr em" "\<not> truthy (s_init st)"
  shows "particles em = [] \<and> limit em = (case cap of None \<Rightarrow> Fin 25 | Some l \<Rightarrow> l)"
  using assms by (auto simp: createEmitter_def Let_def split: option.splits)

lemma createEmitter_length:
  assumes "createEmitter rir r cap st = Inr em"
  shows "length (particles em) \<le> 1"
  using assms
  by (auto simp: createEmitter_def Let_def and_then_def split: option.splits if_splits sum.splits)

lemma ParticleEmitter_index_length:
  assumes "ParticleEmitter_index r1 r2 cap = Inr em"
  shows "length (particles em) = 1"
  using assms by (auto simp: ParticleEmitter_index_def and_then_def createParticle_index_ok)

text \<open>
  Claim C6. Constructing a ParticleEmitter with a settings object that omits fields
  succeeds and applies the defaults, the origin as source position among them. The code
  reads \<^verbatim>\<open>position.x\<close> of the omitted \<^verbatim>\<open>position\<close> and throws: for the default settings
  \<^verbatim>\<open>{}\<close> of the parameter, for an explicit \<^verbatim>\<open>{}\<close>, and for settings that give everything
  but the position. (With a position, even an empty one, the defaults are those of the
  claim: \<open>createEmitter_defaults\<close>, \<open>createEmitter_speed_init\<close>.)
\<close>

theorem C6_createEmitter_no_position:
  "createEmitter rir r cap None = Inl (TypeError ''Cannot read properties of undefined'') \<and>
   createEmitter rir r cap (Some empty_settings) =
     Inl (TypeError ''Cannot read properties of undefined'') \<and>
   createEmitter rir r cap (Some (empty_settings\<lparr> s_color := Str ''red'', s_size := Num (Fin 4),
       s_speed := Num (Fin 7), s_spread := Some \<lparr> high = Fin 1, low = Fin (- 1) \<rparr> \<rparr>)) =
     Inl (TypeError ''Cannot read properties of undefined'')"
  by (simp add: createEmitter_def empty_settings_def)







text \<open>
  Claim C2, as the code has it. In both files, on an emitter whose limit is a whole
  number \<open>k\<close> and whose list is no longer than \<open>k\<close>, the list is no longer than \<open>k\<close>
  after any number of calls of \<open>emit\<close>, whatever the draws and whether or not a call
  throws. A constructed emitter is such an emitter when its limit is a whole number of
  at least 1, and also when its limit is 0 and it was constructed without a pre-seeded
  particle.
\<close>

theorem C2_length_le_limit:
  "(limit em = Fin (of_int k) \<and> int (length (particles em)) \<le> k \<longrightarrow>
      int (length (particles (emits_index rs em))) \<le> k) \<and>
   (limit em' = Fin (of_int k) \<and> int (length (particles em')) \<le> k \<longrightarrow>
      int (length (particles (emits_part000 rir rs' em'))) \<le> k) \<and>
   (ParticleEmitter_index r1 r2 cap = Inr em0 \<and> limit em0 = Fin (of_int k) \<and> 1 \<le> k \<longrightarrow>
      int (length (particles (emits_index rs em0))) \<le> k) \<and>
   (createEmitter rir0 r cap' st = Inr em1 \<and> limit em1 = Fin (of_int k) \<and> 1 \<le> k \<longrightarrow>
      int (length (particles (emits_part000 rir rs' em1))) \<le> k) \<and>
   (createEmitter rir0 r cap' (Some st') = Inr em2 \<and> \<not> truthy (s_init st') \<and>
    limit em2 = Fin (of_int k) \<and> 0 \<le> k \<longrightarrow>
      int (length (particles (emits_part000 rir rs' em2))) \<le> k)"
proof -
  have 1: "ParticleEmitter_index r1 r2 cap = Inr em0 \<and> limit em0 = Fin (of_int k) \<and> 1 \<le> k \<longrightarrow>
      int (length (particles (emits_index rs em0))) \<le> k"
    using ParticleEmitter_index_length [of r1 r2 cap em0] emits_index_bounded [of em0 k rs]
    by auto
  have 2: "createEmitter rir0 r cap' st = Inr em1 \<and> limit em1 = Fin (of_int k) \<and> 1 \<le> k \<longrightarrow>
      int (length (particles (emits_part000 rir rs' em1))) \<le> k"
    using createEmitter_length [of rir0 r cap' st em1] emits_part000_bounded [of em1 k rir rs']
    by auto
  have 3: "createEmitter rir0 r cap' (Some st') = Inr em2 \<and> \<not> truthy (s_init st') \<and>
      limit em2 = Fin (of_int k) \<and> 0 \<le> k \<longrightarrow>
      int (length (particles (emits_part000 rir rs' em2))) \<le> k"
    using createEmitter_unseeded [of rir0 r cap' st' em2] emits_part000_bounded [of em2 k rir rs']
    by auto
  from 1 2 3 emits_index_bounded [of em k rs] emits_part000_bounded [of em' k rir rs']
  show ?thesis by blast
qed

theorem C2_length_le_limit_witness:
  "ParticleEmitter_index 0 0 (Some (Fin 2)) =
     Inr \<lparr> limit = Fin 2, particles = [\<lparr> position = \<lparr> xc = Fin 300, yc = Fin 200 \<rparr>,
          velocity = \<lparr> xc = Fin 10, yc = randomInRange 0 (Fin 3) (Some (Fin (- 3))) \<rparr>,
          acceleration = Fin 1, size_wh = \<lparr> width = Num (Fin 3), height = Num (Fin 3) \<rparr>,
          color = randomInArray 0 [Str ''red'', Str ''blue'', Str ''orange'', Str ''green''] \<rparr>] \<rparr> \<and>
   int (length (particles (emits_index [(0, 0), (0, 0), (0, 0)]
      \<lparr> limit = Fin 2, particles = [\<lparr> position = \<lparr> xc = Fin 300, yc = Fin 200 \<rparr>,
          velocity = \<lparr> xc = Fin 10, yc = randomInRange 0 (Fin 3) (Some (Fin (- 3))) \<rparr>,
          acceleration = Fin 1, size_wh = \<lparr> width = Num (Fin 3), height = Num (Fin 3) \<rparr>,
          color = randomInArray 0 [Str ''red'', Str ''blue'', Str ''orange'', Str ''green''] \<rparr>] \<rparr>))) \<le> 2 \<and>
   int (length (particles (emits_part000 True [0, 0, 0]
      \<lparr> limit = Fin 2, particles = [], ecolor = Str ''black'', esize = Num (Fin 2),
        source = \<lparr> xa = Num (Fin 0), ya = Num (Fin 0) \<rparr>,
        spread = \<lparr> high = Fin 3, low = Fin (- 3) \<rparr>, speed = Fin 10 \<rparr>))) \<le> 2 \<and>
   int (length (particles (emits_part000 False [0, 0, 0]
      \<lparr> limit = Fin 2, particles = [], ecolor = Str ''black'', esize = Num (Fin 2),
        source = \<lparr> xa = Num (Fin 0), ya = Num (Fin 0) \<rparr>,
        spread = \<lparr> high = Fin 3, low = Fin (- 3) \<rparr>, speed = Fin 10 \<rparr>))) \<le> 2"
proof -
  let ?st = "empty_settings\<lparr> s_position := Some \<lparr> xa = Undefined, ya = Undefined \<rparr> \<rparr>"
  let ?em = "\<lparr> limit = Fin 2, particles = [], ecolor = Str ''black'', esize = Num (Fin 2),
        source = \<lparr> xa = Num (Fin 0), ya = Num (Fin 0) \<rparr>,
        spread = \<lparr> high = Fin 3, low = Fin (- 3) \<rparr>, speed = Fin 10 \<rparr>"
  let ?ei = "\<lparr> limit = Fin 2, particles = [\<lparr> position = \<lparr> xc = Fin 300, yc = Fin 200 \<rparr>,
          velocity = \<lparr> xc = Fin 10, yc = randomInRange 0 (Fin 3) (Some (Fin (- 3))) \<rparr>,
          acceleration = Fin 1, size_wh = \<lparr> width = Num (Fin 3), height = Num (Fin 3) \<rparr>,
          color = randomInArray 0 [Str ''red'', Str ''blue'', Str ''orange'', Str ''green''] \<rparr>] \<rparr>"
  have h0: "ParticleEmitter_index 0 0 (Some (Fin 2)) = Inr ?ei"
    by (simp add: ParticleEmitter_index_def and_then_def createParticle_index_ok)
  have h1: "createEmitter True 0 (Some (Fin 2)) (Some ?st) = Inr ?em"
    by (simp add: createEmitter_defaults)
  have h2: "\<not> truthy (s_init ?st)" by (simp add: empty_settings_def)
  show ?thesis
    using C2_length_le_limit [of ?ei 2 "[(0, 0), (0, 0), (0, 0)]" ?em True "[0, 0, 0]" 0 0
        "Some (Fin 2)" ?ei True 0 "Some (Fin 2)" "Some ?st" ?em ?st ?em]
      C2_length_le_limit [of ?ei 2 "[(0, 0), (0, 0), (0, 0)]" ?em False "[0, 0, 0]" 0 0
        "Some (Fin 2)" ?ei True 0 "Some (Fin 2)" "Some ?st" ?em ?st ?em] h0 h1 h2
    by simp
qed

text \<open>
  The claim as stated fails before the first call: \<^verbatim>\<open>ParticleEmitter(0)\<close> of
  \<^verbatim>\<open>src/index.js\<close> seeds one particle under the limit 0. It fails after the first call
  for a limit that is not a whole number: \<^verbatim>\<open>ParticleEmitter(1.5)\<close> starts with one
  particle, and since 1 is below 1.5 the first call appends a second one.
\<close>

theorem C2_seeded_over_zero_limit:
  "ParticleEmitter_index 0 0 (Some (Fin 0)) =
     Inr \<lparr> limit = Fin 0, particles = [\<lparr> position = \<lparr> xc = Fin 300, yc = Fin 200 \<rparr>,
          velocity = \<lparr> xc = Fin 10, yc = randomInRange 0 (Fin 3) (Some (Fin (- 3))) \<rparr>,
          acceleration = Fin 1, size_wh = \<lparr> width = Num (Fin 3), height = Num (Fin 3) \<rparr>,
          color = randomInArray 0 [Str ''red'', Str ''blue'', Str ''orange'', Str ''green''] \<rparr>] \<rparr> \<and>
   length (particles \<lparr> limit = Fin 0, particles = [\<lparr> position = \<lparr> xc = Fin 300, yc = Fin 200 \<rparr>,
          velocity = \<lparr> xc = Fin 10, yc = randomInRange 0 (Fin 3) (Some (Fin (- 3))) \<rparr>,
          acceleration = Fin 1, size_wh = \<lparr> width = Num (Fin 3), height = Num (Fin 3) \<rparr>,
          color = randomInArray 0 [Str ''red'', Str ''blue'', Str ''orange'', Str ''green''] \<rparr>] \<rparr>) = 1 \<and>
   js_less (Fin 0) (Fin 1) \<and>
   ParticleEmitter_index 0 0 (Some (Fin (3 / 2))) =
     Inr \<lparr> limit = Fin (3 / 2), particles = [\<lparr> position = \<lparr> xc = Fin 300, yc = Fin 200 \<rparr>,
          velocity = \<lparr> xc = Fin 10, yc = randomInRange 0 (Fin 3) (Some (Fin (- 3))) \<rparr>,
          acceleration = Fin 1, size_wh = \<lparr> width = Num (Fin 3), height = Num (Fin 3) \<rparr>,
          color = randomInArray 0 [Str ''red'', Str ''blue'', Str ''orange'', Str ''green''] \<rparr>] \<rparr> \<and>
   length (particles (snd (emit_index 0 0
     \<lparr> limit = Fin (3 / 2), particles = [\<lparr> position = \<lparr> xc = Fin 300, yc = Fin 200 \<rparr>,
          velocity = \<lparr> xc = Fin 10, yc = randomInRange 0 (Fin 3) (Some (Fin (- 3))) \<rparr>,
          acceleration = Fin 1, size_wh = \<lparr> width = Num (Fin 3), height = Num (Fin 3) \<rparr>,
          color = randomInArray 0 [Str ''red'', Str ''blue'', Str ''orange'', Str ''green''] \<rparr>] \<rparr>))) = 2 \<and>
   js_less (Fin (3 / 2)) (Fin 2)"
  by (simp add: ParticleEmitter_index_def and_then_def createParticle_index_ok
      emit_index_particles)

end
